theory Spec2Isabelle
  imports Main
begin

section \<open>LinkedChunkEngine (hub/core/linked_chunk_engine.py)\<close>

text \<open>
  A shallow embedding of the class \<^verbatim>\<open>LinkedChunkEngine\<close>. Every method is a function
  that takes the engine and returns the outcome together with the engine after the call;
  an exception is the \<open>Inl\<close> of the outcome, and what the method had already written when
  it raised stays written.

  The classes and helpers this module imports (\<^verbatim>\<open>LRUCache\<close>, \<^verbatim>\<open>LinkCreds\<close>,
  \<^verbatim>\<open>read_linked_sample\<close>, \<^verbatim>\<open>normalize_index\<close>, the base class \<^verbatim>\<open>ChunkEngine\<close>, ...) are
  not part of the module. They are parameters of the model, collected in the record
  \<open>collaborators\<close>: every theorem holds for whatever they do.
\<close>

subsection \<open>Exceptions\<close>

text \<open>
  One constructor per exception class the module raises or catches. \<open>TypeError\<close> carries
  the message text, \<open>ValueError\<close> the set of credential keys that \<^verbatim>\<open>check_link_ready\<close>
  formats into its message. \<open>Raised\<close> is any other exception of a collaborator.
\<close>

datatype error =
    TypeError string
  | ValueError "string set"
  | KeyError
  | ReadOnlyModeError
  | AttributeError
  | IndexError
  | AssertionError
  | Raised string

subsection \<open>The credential encoder\<close>

text \<open>
  Modelled from the spec: \<^verbatim>\<open>CredsEncoder\<close> (hub/core/meta/encode/creds.py) is not among
  the sources. The spec describes it as a run-length index: an ordered sequence of
  \<open>(value, run_length)\<close> pairs covering the indices \<open>[0, total)\<close>; lookup by index is a
  search over the cumulative counts and fails out of range; appending \<open>count\<close> copies of a
  value merges into the last run if the values match, else adds a new run.
\<close>

type_synonym creds_encoder = "(nat \<times> nat) list"

definition CredsEncoder :: creds_encoder where
  "CredsEncoder = []"


fun lookup_run :: "creds_encoder \<Rightarrow> nat \<Rightarrow> nat option" where
  "lookup_run [] i = None"
| "lookup_run ((v, n) # runs) i = (if i < n then Some v else lookup_run runs (i - n))"

definition get_encoded_creds_key :: "creds_encoder \<Rightarrow> int \<Rightarrow> error + nat" where
  "get_encoded_creds_key enc i =
     (if i < 0 then Inl IndexError
      else case lookup_run enc (nat i) of None \<Rightarrow> Inl IndexError | Some v \<Rightarrow> Inr v)"


subsection \<open>The credential registry and the engine\<close>

text \<open>
  Of \<^verbatim>\<open>LinkCreds\<close> the module reads two attributes, \<^verbatim>\<open>missing_keys\<close> (iterated) and
  \<^verbatim>\<open>used_creds_keys\<close> (tested for membership); the rest of the registry is \<open>internals\<close>.
\<close>

record 'x link_creds =
  missing_keys :: "string list"
  used_creds_keys :: "string set"
  internals :: 'x

text \<open>
  What leaves the engine: a call of \<^verbatim>\<open>save_link_creds\<close> or of
  \<^verbatim>\<open>warn_missing_managed_creds\<close>, each with the registry it was given.
\<close>

datatype 'x effect =
    SaveLinkCreds "'x link_creds"
  | WarnMissingManagedCreds "'x link_creds"

text \<open>
  The attributes of \<^verbatim>\<open>self\<close>. \<open>self_commit_id\<close> is the property \<^verbatim>\<open>commit_id\<close> of the base
  class (the commit the engine is on), \<open>self_creds_encoder\<close> and
  \<open>self_creds_encoder_commit_id\<close> are \<^verbatim>\<open>_creds_encoder\<close> and \<^verbatim>\<open>_creds_encoder_commit_id\<close>,
  \<open>tensor_meta_is_link\<close> and \<open>tensor_meta_verify\<close> the two flags of \<^verbatim>\<open>tensor_meta\<close>.
  \<open>effects\<close> lists, oldest first, the calls that left the engine.
\<close>

record ('c, 'x) engine =
  self_key :: string
  self_commit_id :: string
  self_creds_encoder :: "creds_encoder option"
  self_creds_encoder_commit_id :: "string option"
  self_meta_cache :: 'c
  self_link_creds :: "'x link_creds"
  tensor_meta_is_link :: bool
  tensor_meta_verify :: bool
  effects :: "'x effect list"

subsection \<open>Samples, indices and arrays\<close>

record linked_sample =
  path :: string
  creds_key :: "string option"

text \<open>
  An array is its shape and its elements in row-major order. A \<^verbatim>\<open>hub.core.sample.Sample\<close>,
  as \<^verbatim>\<open>read_linked_sample\<close> returns it, is what its property \<^verbatim>\<open>array\<close> yields.
\<close>

datatype ndarray = NDArray (shape: "nat list") (flat: "int list")

datatype hub_sample = Sample (array: "error + ndarray")

text \<open>
  What a caller can put into the list given to \<^verbatim>\<open>check_each_sample\<close>: a
  \<^verbatim>\<open>hub.core.tensor.Tensor\<close> (with its \<^verbatim>\<open>is_link\<close> flag and what its
  \<^verbatim>\<open>_linked_sample()\<close> returns or raises), a \<^verbatim>\<open>LinkedSample\<close>, \<^verbatim>\<open>None\<close>, or an object of any
  other class (with the text \<^verbatim>\<open>type(sample)\<close> formats to).
\<close>

datatype sample =
    Tensor bool "error + linked_sample"
  | LinkedSample linked_sample
  | PyNone
  | Other string

text \<open>An element of the list \<^verbatim>\<open>check_each_sample\<close> returns: the sample itself
  (\<^verbatim>\<open>None\<close> or a \<^verbatim>\<open>LinkedSample\<close>) or the \<^verbatim>\<open>Sample\<close> read from its path.\<close>

datatype verified_sample =
    Unread "linked_sample option"
  | Read hub_sample

text \<open>\<^verbatim>\<open>IndexEntry.value\<close> is an integer, a slice or a tuple of integers; an
  \<^verbatim>\<open>Index\<close> is the list of its entries. The argument \<^verbatim>\<open>index\<close> of
  \<^verbatim>\<open>get_video_sample\<close> is tested with \<^verbatim>\<open>isinstance(index, int)\<close>, so it is either.\<close>

datatype index_value =
    IntValue int
  | SliceValue "int option" "int option" "int option"
  | TupleValue "int list"

datatype index_arg =
    IntIndex int
  | Index "index_value list"


subsection \<open>Collaborators\<close>

text \<open>
  The functions and methods the module calls and does not define. A method of the cache
  returns the cache after the call as well, also when it raises. \<open>'c\<close> is the state of
  \<^verbatim>\<open>meta_cache\<close>, \<open>'x\<close> the internals of \<^verbatim>\<open>LinkCreds\<close>, \<open>'p\<close> a storage client.
  The lookups of the registry and the reads of linked samples answer from the registry
  they are given and leave it as it is; \<^verbatim>\<open>add_to_used_creds\<close> is the one method that
  hands back a changed registry. Encoders are values: the encoder the engine holds is
  updated where the source updates the object in place.

  \<^item> \<open>get_creds_encoder_key\<close>: hub.util.keys.
  \<^item> \<open>cache_getitem\<close>, \<open>cache_setitem\<close>, \<open>get_hub_object\<close>, \<open>register_hub_object\<close>:
    \<^verbatim>\<open>meta_cache[key]\<close>, \<^verbatim>\<open>meta_cache[key] = enc\<close> and the two methods of \<^verbatim>\<open>LRUCache\<close>.
  \<^item> \<open>super_get_basic_sample\<close>: \<^verbatim>\<open>ChunkEngine.get_basic_sample\<close> on \<^verbatim>\<open>Index(i)\<close>, which for
    a link tensor yields the array of stored paths.
  \<^item> \<open>get_path_creds_key\<close>: hub.util.link.
  \<^item> \<open>get_encoding\<close>, \<open>get_creds_key\<close>, \<open>get_storage_provider\<close>, \<open>add_to_used_creds\<close>:
    methods of \<^verbatim>\<open>LinkCreds\<close>; the last one returns the registry it leaves behind.
  \<^item> \<open>get_presigned_url\<close>: the method of the storage client.
  \<^item> \<open>read_linked_sample\<close>: hub.core.tensor_link.
  \<^item> \<open>save_link_creds\<close>: hub.util.link; the call is recorded in \<open>effects\<close>, this is
    whether it raises.
  \<^item> \<open>read_video_shape\<close>, \<open>decompress_video\<close>: \<^verbatim>\<open>_read_video_shape\<close> and
    \<^verbatim>\<open>_decompress_video\<close> of hub.core.compression.
  \<^item> \<open>normalize_index\<close>: hub.util.video.
  \<^item> \<open>ndarray_getitem\<close>: numpy's \<^verbatim>\<open>array[tuple]\<close>.
\<close>

record ('c, 'x, 'p) collaborators =
  get_creds_encoder_key :: "string \<Rightarrow> string \<Rightarrow> string"
  cache_getitem :: "'c \<Rightarrow> string \<Rightarrow> (error + unit) \<times> 'c"
  cache_setitem :: "'c \<Rightarrow> string \<Rightarrow> creds_encoder \<Rightarrow> (error + unit) \<times> 'c"
  get_hub_object :: "'c \<Rightarrow> string \<Rightarrow> (error + creds_encoder) \<times> 'c"
  register_hub_object :: "'c \<Rightarrow> string \<Rightarrow> creds_encoder \<Rightarrow> (error + unit) \<times> 'c"
  super_get_basic_sample :: "int \<Rightarrow> error + string list"
  get_path_creds_key :: "linked_sample option \<Rightarrow> string option \<times> string option"
  get_encoding :: "'x link_creds \<Rightarrow> string option \<Rightarrow> string option \<Rightarrow> error + nat"
  get_creds_key :: "'x link_creds \<Rightarrow> nat \<Rightarrow> error + string option"
  get_storage_provider :: "'x link_creds \<Rightarrow> string option \<Rightarrow> string \<Rightarrow> error + 'p"
  add_to_used_creds :: "'x link_creds \<Rightarrow> string option \<Rightarrow> bool \<times> 'x link_creds"
  get_presigned_url :: "'p \<Rightarrow> string \<Rightarrow> bool \<Rightarrow> error + string"
  read_linked_sample ::
    "string \<Rightarrow> string option \<Rightarrow> 'x link_creds \<Rightarrow> bool \<Rightarrow> error + hub_sample"
  save_link_creds :: "'x link_creds \<Rightarrow> error + unit"
  read_video_shape :: "string \<Rightarrow> error + nat list"
  decompress_video :: "string \<Rightarrow> int \<Rightarrow> int \<Rightarrow> int \<Rightarrow> bool \<Rightarrow> error + ndarray"
  normalize_index :: "index_value option \<Rightarrow> nat \<Rightarrow> error + (int \<times> int \<times> int \<times> bool)"
  ndarray_getitem :: "ndarray \<Rightarrow> index_value list \<Rightarrow> error + ndarray"

subsection \<open>The commit-scoped encoder: creds_encoder_exists, creds_encoder\<close>

text \<open>
  \<^verbatim>\<open>creds_encoder_exists\<close>: true at once when an encoder is held for the current commit;
  otherwise the cache is asked for the encoder's key, and a \<^verbatim>\<open>KeyError\<close> means no.
\<close>

definition creds_encoder_exists ::
  "('c, 'x, 'p) collaborators \<Rightarrow> ('c, 'x) engine \<Rightarrow> (error + bool) \<times> ('c, 'x) engine" where
  "creds_encoder_exists ops s =
     (let commit_id = self_commit_id s in
      if self_creds_encoder s \<noteq> None \<and> self_creds_encoder_commit_id s = Some commit_id
      then (Inr True, s)
      else
        (let key = get_creds_encoder_key ops (self_key s) commit_id in
         (case cache_getitem ops (self_meta_cache s) key of
            (Inr _, c) \<Rightarrow> (Inr True, s\<lparr>self_meta_cache := c\<rparr>)
          | (Inl KeyError, c) \<Rightarrow> (Inr False, s\<lparr>self_meta_cache := c\<rparr>)
          | (Inl e, c) \<Rightarrow> (Inl e, s\<lparr>self_meta_cache := c\<rparr>))))"

text \<open>
  The \<^verbatim>\<open>if not self.creds_encoder_exists: ... else: ...\<close> of \<^verbatim>\<open>creds_encoder\<close>: a new
  encoder is written to the cache, and a \<^verbatim>\<open>ReadOnlyModeError\<close> of that write is passed
  over; an existing one is loaded with \<^verbatim>\<open>get_hub_object\<close>.
\<close>

definition create_or_load ::
  "('c, 'x, 'p) collaborators \<Rightarrow> string \<Rightarrow> ('c, 'x) engine \<Rightarrow>
     (error + creds_encoder) \<times> ('c, 'x) engine" where
  "create_or_load ops key s =
     (case creds_encoder_exists ops s of
        (Inl e, s1) \<Rightarrow> (Inl e, s1)
      | (Inr False, s1) \<Rightarrow>
          (let enc = CredsEncoder in
           (case cache_setitem ops (self_meta_cache s1) key enc of
              (Inr _, c) \<Rightarrow> (Inr enc, s1\<lparr>self_meta_cache := c\<rparr>)
            | (Inl ReadOnlyModeError, c) \<Rightarrow> (Inr enc, s1\<lparr>self_meta_cache := c\<rparr>)
            | (Inl e, c) \<Rightarrow> (Inl e, s1\<lparr>self_meta_cache := c\<rparr>)))
      | (Inr True, s1) \<Rightarrow>
          (case get_hub_object ops (self_meta_cache s1) key of
             (r, c) \<Rightarrow> (r, s1\<lparr>self_meta_cache := c\<rparr>)))"

text \<open>
  \<^verbatim>\<open>creds_encoder\<close>: the held encoder is returned when there is one and its recorded commit
  id is the current one (the first \<open>case\<close> is the negation of the source's test
  \<^verbatim>\<open>self._creds_encoder is None or self._creds_encoder_commit_id != commit_id\<close>); otherwise an
  encoder is created or loaded, recorded with the current commit id and registered.
\<close>

definition creds_encoder ::
  "('c, 'x, 'p) collaborators \<Rightarrow> ('c, 'x) engine \<Rightarrow>
     (error + creds_encoder) \<times> ('c, 'x) engine" where
  "creds_encoder ops s =
     (let commit_id = self_commit_id s in
      (case (if self_creds_encoder_commit_id s = Some commit_id then self_creds_encoder s
             else None) of
         Some held \<Rightarrow> (Inr held, s)
       | None \<Rightarrow>
           (let key = get_creds_encoder_key ops (self_key s) commit_id in
            (case create_or_load ops key s of
               (Inl e, s2) \<Rightarrow> (Inl e, s2)
             | (Inr enc, s2) \<Rightarrow>
                 (let s3 = s2\<lparr>self_creds_encoder := Some enc,
                              self_creds_encoder_commit_id := Some commit_id\<rparr> in
                  (case register_hub_object ops (self_meta_cache s3) key enc of
                     (Inl e, c) \<Rightarrow> (Inl e, s3\<lparr>self_meta_cache := c\<rparr>)
                   | (Inr _, c) \<Rightarrow> (Inr enc, s3\<lparr>self_meta_cache := c\<rparr>)))))))"


subsection \<open>Reading a linked sample\<close>

text \<open>\<^verbatim>\<open>get_path\<close>: element 0 of what the base class reads at \<^verbatim>\<open>Index(i)\<close>.\<close>

definition get_path :: "('c, 'x, 'p) collaborators \<Rightarrow> int \<Rightarrow> error + string" where
  "get_path ops global_sample_index =
     (case super_get_basic_sample ops global_sample_index of
        Inl e \<Rightarrow> Inl e
      | Inr [] \<Rightarrow> Inl IndexError
      | Inr (p # _) \<Rightarrow> Inr p)"

text \<open>\<^verbatim>\<open>str.startswith\<close>.\<close>

definition startswith :: "string \<Rightarrow> string \<Rightarrow> bool" where
  "startswith s pre = (take (length pre) s = pre)"

definition get_video_url ::
  "('c, 'x, 'p) collaborators \<Rightarrow> ('c, 'x) engine \<Rightarrow> int \<Rightarrow> (error + string) \<times> ('c, 'x) engine" where
  "get_video_url ops s global_sample_index =
     (case creds_encoder ops s of
        (Inl e, s1) \<Rightarrow> (Inl e, s1)
      | (Inr enc, s1) \<Rightarrow>
     (case get_path ops global_sample_index of
        Inl e \<Rightarrow> (Inl e, s1)
      | Inr sample_path \<Rightarrow>
     (case get_encoded_creds_key enc global_sample_index of
        Inl e \<Rightarrow> (Inl e, s1)
      | Inr sample_creds_encoded \<Rightarrow>
     (case get_creds_key ops (self_link_creds s1) sample_creds_encoded of
        Inl e \<Rightarrow> (Inl e, s1)
      | Inr sample_creds_key \<Rightarrow>
          if startswith sample_path ''gcs://'' \<or> startswith sample_path ''gcp://''
             \<or> startswith sample_path ''s3://''
          then
            (let provider_type = (if startswith sample_path ''s3://'' then ''s3'' else ''gcs'') in
             (case get_storage_provider ops (self_link_creds s1) sample_creds_key provider_type of
                Inl e \<Rightarrow> (Inl e, s1)
              | Inr storage \<Rightarrow> (get_presigned_url ops storage sample_path True, s1)))
          else (Inr sample_path, s1)))))"

text \<open>numpy's \<^verbatim>\<open>ndarray.squeeze(axis)\<close>: a new array without the axis, which must be of
  length one; the array it is called on stays as it is.\<close>

definition squeeze :: "ndarray \<Rightarrow> nat \<Rightarrow> error + ndarray" where
  "squeeze a axis =
     (if axis < length (shape a) \<and> shape a ! axis = 1
      then Inr (NDArray (take axis (shape a) @ drop (Suc axis) (shape a)) (flat a))
      else Inl (Raised ''ValueError''))"

text \<open>numpy's \<^verbatim>\<open>ones(shape)\<close>.\<close>

definition np_ones :: "nat list \<Rightarrow> ndarray" where
  "np_ones dims = NDArray dims (replicate (prod_list dims) 1)"

text \<open>
  \<^verbatim>\<open>get_video_sample\<close>. \<^verbatim>\<open>index.values\<close> raises on an \<^verbatim>\<open>int\<close>; \<^verbatim>\<open>shape[0]\<close> raises on an
  empty shape; the value of \<^verbatim>\<open>video_sample.squeeze(0)\<close> is dropped, as the statement in the
  source drops it.
\<close>

definition get_video_sample ::
  "('c, 'x, 'p) collaborators \<Rightarrow> ('c, 'x) engine \<Rightarrow> int \<Rightarrow> index_arg \<Rightarrow>
     (error + ndarray) \<times> ('c, 'x) engine" where
  "get_video_sample ops s global_sample_index index =
     (case get_video_url ops s global_sample_index of
        (Inl e, s1) \<Rightarrow> (Inl e, s1)
      | (Inr url, s1) \<Rightarrow>
     (let squeeze_flag = (case index of IntIndex _ \<Rightarrow> True | Index _ \<Rightarrow> False) in
     (case read_video_shape ops url of
        Inl e \<Rightarrow> (Inl e, s1)
      | Inr video_shape \<Rightarrow>
     (case index of
        IntIndex _ \<Rightarrow> (Inl AttributeError, s1)
      | Index values \<Rightarrow>
     (let sub_index = (if length values > 1 then Some (values ! 1) else None) in
     (case video_shape of
        [] \<Rightarrow> (Inl IndexError, s1)
      | nframes # _ \<Rightarrow>
     (case normalize_index ops sub_index nframes of
        Inl e \<Rightarrow> (Inl e, s1)
      | Inr (start, stop, step, reverse) \<Rightarrow>
     (case decompress_video ops url start stop step reverse of
        Inl e \<Rightarrow> (Inl e, s1)
      | Inr video_sample \<Rightarrow>
          if squeeze_flag
          then (case squeeze video_sample 0 of
                  Inl e \<Rightarrow> (Inl e, s1)
                | Inr _ \<Rightarrow> (Inr video_sample, s1))
          else (Inr video_sample, s1)))))))))"

definition get_hub_read_sample ::
  "('c, 'x, 'p) collaborators \<Rightarrow> ('c, 'x) engine \<Rightarrow> int \<Rightarrow>
     (error + hub_sample option) \<times> ('c, 'x) engine" where
  "get_hub_read_sample ops s global_sample_index =
     (case creds_encoder ops s of
        (Inl e, s1) \<Rightarrow> (Inl e, s1)
      | (Inr enc, s1) \<Rightarrow>
     (case get_path ops global_sample_index of
        Inl e \<Rightarrow> (Inl e, s1)
      | Inr sample_path \<Rightarrow>
          if sample_path = [] then (Inr None, s1)
          else
     (case get_encoded_creds_key enc global_sample_index of
        Inl e \<Rightarrow> (Inl e, s1)
      | Inr sample_creds_encoded \<Rightarrow>
     (case get_creds_key ops (self_link_creds s1) sample_creds_encoded of
        Inl e \<Rightarrow> (Inl e, s1)
      | Inr sample_creds_key \<Rightarrow>
     (case read_linked_sample ops sample_path sample_creds_key (self_link_creds s1) False of
        Inl e \<Rightarrow> (Inl e, s1)
      | Inr smp \<Rightarrow> (Inr (Some smp), s1))))))"

text \<open>\<^verbatim>\<open>get_basic_sample\<close>; \<^verbatim>\<open>sample.array\<close> is evaluated before \<^verbatim>\<open>index.values\<close>.\<close>

definition get_basic_sample ::
  "('c, 'x, 'p) collaborators \<Rightarrow> ('c, 'x) engine \<Rightarrow> int \<Rightarrow> index_arg \<Rightarrow> bool \<Rightarrow>
     (error + ndarray) \<times> ('c, 'x) engine" where
  "get_basic_sample ops s global_sample_index index fetch_chunks =
     (case get_hub_read_sample ops s global_sample_index of
        (Inl e, s1) \<Rightarrow> (Inl e, s1)
      | (Inr None, s1) \<Rightarrow> (Inr (np_ones [0]), s1)
      | (Inr (Some smp), s1) \<Rightarrow>
     (case array smp of
        Inl e \<Rightarrow> (Inl e, s1)
      | Inr arr \<Rightarrow>
     (case index of
        IntIndex _ \<Rightarrow> (Inl AttributeError, s1)
      | Index values \<Rightarrow> (ndarray_getitem ops arr (drop 1 values), s1))))"



subsection \<open>Appending: check_each_sample\<close>

definition verify :: "('c, 'x) engine \<Rightarrow> bool" where
  "verify s = (tensor_meta_is_link s \<and> tensor_meta_verify s)"

text \<open>What \<^verbatim>\<open>type(sample)\<close> formats to.\<close>

definition type_text :: "sample \<Rightarrow> string" where
  "type_text x =
     (case x of
        Tensor _ _ \<Rightarrow> ''<class 'hub.core.tensor.Tensor'>''
      | LinkedSample _ \<Rightarrow> ''<class 'hub.core.linked_sample.LinkedSample'>''
      | PyNone \<Rightarrow> ''<class 'NoneType'>''
      | Other t \<Rightarrow> t)"

definition type_error_message :: "sample \<Rightarrow> string" where
  "type_error_message x =
     ''Expected LinkedSample, got '' @ type_text x @ '' instead. Use hub.link() to link samples.''"

text \<open>
  The \<^verbatim>\<open>if ... elif ...\<close> at the head of the loop body: the value of \<^verbatim>\<open>sample\<close> after it
  (a \<^verbatim>\<open>LinkedSample\<close> or \<^verbatim>\<open>None\<close>), and what the first branch assigns to \<^verbatim>\<open>samples[i]\<close>.
\<close>

definition resolve_sample :: "sample \<Rightarrow> error + (linked_sample option \<times> sample option)" where
  "resolve_sample x =
     (case x of
        Tensor is_link linked \<Rightarrow>
          if is_link
          then (case linked of
                  Inl e \<Rightarrow> Inl e
                | Inr l \<Rightarrow> Inr (Some l, Some (LinkedSample l)))
          else Inl (TypeError (type_error_message x))
      | LinkedSample l \<Rightarrow> Inr (Some l, None)
      | PyNone \<Rightarrow> Inr (None, None)
      | Other t \<Rightarrow> Inl (TypeError (type_error_message x)))"

text \<open>The \<^verbatim>\<open>if sample is None or sample.path == "": ... else: ...\<close> at its end.\<close>

definition verified_sample_of ::
  "('c, 'x, 'p) collaborators \<Rightarrow> ('c, 'x) engine \<Rightarrow> linked_sample option \<Rightarrow>
     error + verified_sample" where
  "verified_sample_of ops s smp =
     (case smp of
        None \<Rightarrow> Inr (Unread None)
      | Some l \<Rightarrow>
          if path l = [] then Inr (Unread (Some l))
          else (case read_linked_sample ops (path l) (creds_key l) (self_link_creds s) (verify s) of
                  Inl e \<Rightarrow> Inl e
                | Inr r \<Rightarrow> Inr (Read r)))"

text \<open>
  The loop \<^verbatim>\<open>for i, sample in enumerate(samples)\<close>, from index \<open>i\<close> on. It returns the
  caller's list as the loop leaves it, also when it raises.
\<close>

function check_each_sample_loop ::
  "('c, 'x, 'p) collaborators \<Rightarrow> ('c, 'x) engine \<Rightarrow> nat \<Rightarrow> sample list \<Rightarrow>
     verified_sample list \<Rightarrow> (error + verified_sample list) \<times> sample list" where
  "check_each_sample_loop ops s i samples verified_samples =
     (if i < length samples then
        (case resolve_sample (samples ! i) of
           Inl e \<Rightarrow> (Inl e, samples)
         | Inr (smp, assigned) \<Rightarrow>
        (let samples1 = (case assigned of None \<Rightarrow> samples | Some x \<Rightarrow> samples[i := x]) in
        (case get_path_creds_key ops smp of (p, k) \<Rightarrow>
        (case get_encoding ops (self_link_creds s) k p of
           Inl e \<Rightarrow> (Inl e, samples1)
         | Inr _ \<Rightarrow>
        (case verified_sample_of ops s smp of
           Inl e \<Rightarrow> (Inl e, samples1)
         | Inr v \<Rightarrow>
             check_each_sample_loop ops s (i + 1) samples1 (verified_samples @ [v]))))))
      else (Inr verified_samples, samples))"
  by pat_completeness auto
termination
  by (relation "measure (\<lambda>(ops, s, i, samples, verified_samples). length samples - i)")
     (auto split: option.splits)

definition check_each_sample ::
  "('c, 'x, 'p) collaborators \<Rightarrow> ('c, 'x) engine \<Rightarrow> sample list \<Rightarrow>
     (error + verified_sample list) \<times> sample list" where
  "check_each_sample ops s samples = check_each_sample_loop ops s 0 samples []"

subsection \<open>Appending: register_new_creds\<close>



subsection \<open>Readiness of the links: check_link_ready\<close>

definition check_link_ready :: "('c, 'x) engine \<Rightarrow> (error + unit) \<times> ('c, 'x) engine" where
  "check_link_ready s =
     (let missing = missing_keys (self_link_creds s);
          creds_used = used_creds_keys (self_link_creds s);
          missing_used_keys = {key \<in> set missing. key \<in> creds_used}
      in if missing_used_keys \<noteq> {}
         then (Inl (ValueError missing_used_keys), s)
         else (Inr (), s))"

subsection \<open>Notions of the statements\<close>

text \<open>The engine holds no encoder for the commit it is on: none at all, or one recorded
  for another commit id.\<close>

definition not_held :: "('c, 'x) engine \<Rightarrow> bool" where
  "not_held s =
     (self_creds_encoder s = None \<or> self_creds_encoder_commit_id s \<noteq> Some (self_commit_id s))"


text \<open>What stands in the caller's list at the place of a sample the loop has passed:
  for a link tensor whose \<^verbatim>\<open>_linked_sample()\<close> returned, the \<^verbatim>\<open>LinkedSample\<close> it returned;
  else the sample itself.\<close>

definition overwritten :: "sample \<Rightarrow> sample" where
  "overwritten x =
     (case x of
        Tensor is_link linked \<Rightarrow>
          (case linked of
             Inl _ \<Rightarrow> x
           | Inr l \<Rightarrow> if is_link then LinkedSample l else x)
      | _ \<Rightarrow> x)"

text \<open>The outcome of one pass of the loop body of \<^verbatim>\<open>check_each_sample\<close> for a sample:
  the type test, the lookup of the credential key, and the read.\<close>

definition check_one ::
  "('c, 'x, 'p) collaborators \<Rightarrow> ('c, 'x) engine \<Rightarrow> sample \<Rightarrow> error + verified_sample" where
  "check_one ops s x =
     (case resolve_sample x of
        Inl e \<Rightarrow> Inl e
      | Inr (smp, assigned) \<Rightarrow>
          (case get_path_creds_key ops smp of (p, k) \<Rightarrow>
          (case get_encoding ops (self_link_creds s) k p of
             Inl e \<Rightarrow> Inl e
           | Inr _ \<Rightarrow> verified_sample_of ops s smp)))"




subsection \<open>A dictionary cache and a small registry, for the examples\<close>

text \<open>
  One instance of the collaborators, on which the theorems below are run. The cache is a
  dictionary (newest entry first) with a read-only flag: a lookup of a missing key raises
  \<^verbatim>\<open>KeyError\<close>, a write to a read-only cache raises \<^verbatim>\<open>ReadOnlyModeError\<close>, registering
  an object needs no write. The registry numbers its declared keys from 1 and gives
  \<^verbatim>\<open>None\<close> the id 0; a storage client is the text of its provider type and key.
\<close>

type_synonym dict_cache = "(string \<times> creds_encoder) list \<times> bool"

definition dict_getitem :: "dict_cache \<Rightarrow> string \<Rightarrow> (error + unit) \<times> dict_cache" where
  "dict_getitem c key =
     (case map_of (fst c) key of None \<Rightarrow> (Inl KeyError, c) | Some _ \<Rightarrow> (Inr (), c))"

definition dict_setitem ::
  "dict_cache \<Rightarrow> string \<Rightarrow> creds_encoder \<Rightarrow> (error + unit) \<times> dict_cache" where
  "dict_setitem c key enc =
     (if snd c then (Inl ReadOnlyModeError, c) else (Inr (), ((key, enc) # fst c, snd c)))"

definition dict_get_hub_object ::
  "dict_cache \<Rightarrow> string \<Rightarrow> (error + creds_encoder) \<times> dict_cache" where
  "dict_get_hub_object c key =
     (case map_of (fst c) key of None \<Rightarrow> (Inl KeyError, c) | Some enc \<Rightarrow> (Inr enc, c))"

definition dict_register_hub_object ::
  "dict_cache \<Rightarrow> string \<Rightarrow> creds_encoder \<Rightarrow> (error + unit) \<times> dict_cache" where
  "dict_register_hub_object c key enc = (Inr (), ((key, enc) # fst c, snd c))"

definition example_paths :: "int \<Rightarrow> error + string list" where
  "example_paths i =
     (if i = 0 then Inr [''s3://bucket/clip.mp4'']
      else if i = 1 then Inr [[]]
      else if i = 2 then Inr [''videos/clip.mp4'']
      else Inl IndexError)"

definition example_get_path_creds_key ::
  "linked_sample option \<Rightarrow> string option \<times> string option" where
  "example_get_path_creds_key smp =
     (case smp of None \<Rightarrow> (None, None) | Some l \<Rightarrow> (Some (path l), creds_key l))"

definition example_get_encoding ::
  "string list link_creds \<Rightarrow> string option \<Rightarrow> string option \<Rightarrow> error + nat" where
  "example_get_encoding lc k p =
     (case k of
        None \<Rightarrow> Inr 0
      | Some name \<Rightarrow>
          if name \<in> set (internals lc)
          then Inr (Suc (length (takeWhile (\<lambda>x. x \<noteq> name) (internals lc))))
          else Inl (Raised ''ValueError''))"

definition example_get_creds_key ::
  "string list link_creds \<Rightarrow> nat \<Rightarrow> error + string option" where
  "example_get_creds_key lc n =
     (if n = 0 then Inr None
      else if n \<le> length (internals lc) then Inr (Some (internals lc ! (n - 1)))
      else Inl KeyError)"

definition example_add_to_used_creds ::
  "string list link_creds \<Rightarrow> string option \<Rightarrow> bool \<times> string list link_creds" where
  "example_add_to_used_creds lc k =
     (case k of
        None \<Rightarrow> (False, lc)
      | Some name \<Rightarrow>
          if name \<in> used_creds_keys lc then (False, lc)
          else (True, lc\<lparr>used_creds_keys := insert name (used_creds_keys lc)\<rparr>))"

definition example_get_storage_provider ::
  "string list link_creds \<Rightarrow> string option \<Rightarrow> string \<Rightarrow> error + string" where
  "example_get_storage_provider lc k provider_type =
     (case k of
        None \<Rightarrow> Inr provider_type
      | Some name \<Rightarrow>
          if name \<in> set (missing_keys lc) then Inl (Raised ''credentials not loaded'')
          else Inr (provider_type @ '':'' @ name))"

definition example_normalize_index ::
  "index_value option \<Rightarrow> nat \<Rightarrow> error + (int \<times> int \<times> int \<times> bool)" where
  "example_normalize_index sub nframes =
     (case sub of
        None \<Rightarrow> Inr (0, int nframes, 1, False)
      | Some (IntValue i) \<Rightarrow>
          (let start = (if 0 \<le> i then i else int nframes + i) in Inr (start, start + 1, 1, False))
      | Some (SliceValue a b c) \<Rightarrow>
          Inr (case a of None \<Rightarrow> 0 | Some x \<Rightarrow> x,
               case b of None \<Rightarrow> int nframes | Some x \<Rightarrow> x,
               case c of None \<Rightarrow> 1 | Some x \<Rightarrow> abs x,
               case c of None \<Rightarrow> False | Some x \<Rightarrow> x < 0)
      | Some (TupleValue _) \<Rightarrow> Inl IndexError)"

text \<open>One grey pixel per frame: the decoded range has the shape (frames, 1, 1, 1).\<close>

definition example_decompress_video ::
  "string \<Rightarrow> int \<Rightarrow> int \<Rightarrow> int \<Rightarrow> bool \<Rightarrow> error + ndarray" where
  "example_decompress_video url start stop step reverse =
     (if step \<le> 0 then Inl (Raised ''ValueError'')
      else (let frames = nat ((stop - start + step - 1) div step)
            in Inr (NDArray [frames, 1, 1, 1] (replicate frames 128))))"

text \<open>Indexing by nothing, or by one integer on the first axis.\<close>

definition example_ndarray_getitem :: "ndarray \<Rightarrow> index_value list \<Rightarrow> error + ndarray" where
  "example_ndarray_getitem a idx =
     (case idx of
        [] \<Rightarrow> Inr a
      | [IntValue i] \<Rightarrow>
          (case shape a of
             [] \<Rightarrow> Inl IndexError
           | n # rest \<Rightarrow>
               if 0 \<le> i \<and> i < int n
               then Inr (NDArray rest
                      (take (prod_list rest) (drop (nat i * prod_list rest) (flat a))))
               else Inl IndexError)
      | _ \<Rightarrow> Inl (Raised ''not in the example''))"

definition example_ops :: "(dict_cache, string list, string) collaborators" where
  "example_ops = \<lparr>
     get_creds_encoder_key =
       (\<lambda>key commit_id. ''versions/'' @ commit_id @ ''/'' @ key @ ''/creds_index''),
     cache_getitem = dict_getitem,
     cache_setitem = dict_setitem,
     get_hub_object = dict_get_hub_object,
     register_hub_object = dict_register_hub_object,
     super_get_basic_sample = example_paths,
     get_path_creds_key = example_get_path_creds_key,
     get_encoding = example_get_encoding,
     get_creds_key = example_get_creds_key,
     get_storage_provider = example_get_storage_provider,
     add_to_used_creds = example_add_to_used_creds,
     get_presigned_url = (\<lambda>storage p full. Inr (''https://'' @ storage @ ''/'' @ p)),
     read_linked_sample =
       (\<lambda>p k lc v. Inr (Sample (Inr (NDArray [2, 3] [1, 2, 3, 4, 5, 6])))),
     save_link_creds = (\<lambda>lc. Inr ()),
     read_video_shape = (\<lambda>url. Inr [10, 1, 1, 1]),
     decompress_video = example_decompress_video,
     normalize_index = example_normalize_index,
     ndarray_getitem = example_ndarray_getitem
   \<rparr>"

text \<open>A registry with one declared key, not yet supplied with its secret and not yet
  used; and an engine on commit \<open>c1\<close> that holds no encoder, over an empty cache.\<close>

definition example_link_creds :: "string list link_creds" where
  "example_link_creds =
     \<lparr>missing_keys = [''my_s3_key''], used_creds_keys = {}, internals = [''my_s3_key'']\<rparr>"

definition example_engine :: "(dict_cache, string list) engine" where
  "example_engine = \<lparr>
     self_key = ''videos'',
     self_commit_id = ''c1'',
     self_creds_encoder = None,
     self_creds_encoder_commit_id = None,
     self_meta_cache = ([], False),
     self_link_creds = example_link_creds,
     tensor_meta_is_link = True,
     tensor_meta_verify = True,
     effects = []
   \<rparr>"

text \<open>The same engine once it holds, for commit \<open>c1\<close>, an encoder of four samples; that
  engine moved to commit \<open>c2\<close>, for which the cache has an encoder of three samples; and
  collaborators whose cache refuses a write with an error of the operating system.\<close>

definition example_engine_holding :: "(dict_cache, string list) engine" where
  "example_engine_holding =
     example_engine\<lparr>self_creds_encoder := Some [(1, 4)],
                    self_creds_encoder_commit_id := Some ''c1''\<rparr>"


definition example_failing_ops :: "(dict_cache, string list, string) collaborators" where
  "example_failing_ops =
     example_ops\<lparr>cache_setitem := (\<lambda>c key enc. (Inl (Raised ''OSError''), c))\<rparr>"

text \<open>The holding engine once the secret of its key has been supplied.\<close>

definition example_engine_populated :: "(dict_cache, string list) engine" where
  "example_engine_populated =
     example_engine_holding\<lparr>self_link_creds := example_link_creds\<lparr>missing_keys := []\<rparr>\<rparr>"

text \<open>A list to append: \<^verbatim>\<open>None\<close>, a sample of a linked tensor, and an empty link.\<close>

definition example_samples :: "sample list" where
  "example_samples =
     [PyNone,
      Tensor True (Inr \<lparr>path = ''s3://bucket/a.png'', creds_key = Some ''my_s3_key''\<rparr>),
      LinkedSample \<lparr>path = [], creds_key = None\<rparr>]"



section \<open>Properties\<close>

lemmas example_defs =
  example_ops_def example_engine_def dict_getitem_def dict_setitem_def
  dict_get_hub_object_def dict_register_hub_object_def

subsection \<open>check_link_ready\<close>

text \<open>
  C1. \<^verbatim>\<open>check_link_ready\<close> raises exactly when the credential keys that are used by
  stored samples and the keys without a loaded secret have a key in common; the error
  then carries exactly that intersection; otherwise the call returns \<^verbatim>\<open>None\<close>. In both
  cases the engine is left as it was.
\<close>

theorem check_link_ready_iff_missing_used:
  "check_link_ready s =
     (if used_creds_keys (self_link_creds s) \<inter> set (missing_keys (self_link_creds s)) = {}
      then Inr ()
      else Inl (ValueError
             (used_creds_keys (self_link_creds s) \<inter> set (missing_keys (self_link_creds s)))),
      s)"
proof -
  have "{key \<in> set (missing_keys (self_link_creds s)). key \<in> used_creds_keys (self_link_creds s)}
        = used_creds_keys (self_link_creds s) \<inter> set (missing_keys (self_link_creds s))"
    by auto
  then show ?thesis
    unfolding check_link_ready_def Let_def by simp
qed

text \<open>
  The scenario of the spec: a key that is used and declared but not populated makes the
  call fail, naming that key and no other; once the key is supplied the call returns.
\<close>

theorem check_link_ready_witness:
  "check_link_ready (example_engine\<lparr>self_link_creds :=
       example_link_creds\<lparr>used_creds_keys := {''my_s3_key'', ''other''}\<rparr>\<rparr>)
     = (Inl (ValueError {''my_s3_key''}),
        example_engine\<lparr>self_link_creds :=
          example_link_creds\<lparr>used_creds_keys := {''my_s3_key'', ''other''}\<rparr>\<rparr>)
   \<and> check_link_ready (example_engine\<lparr>self_link_creds :=
       example_link_creds\<lparr>used_creds_keys := {''my_s3_key'', ''other''}, missing_keys := []\<rparr>\<rparr>)
     = (Inr (),
        example_engine\<lparr>self_link_creds :=
          example_link_creds\<lparr>used_creds_keys := {''my_s3_key'', ''other''}, missing_keys := []\<rparr>\<rparr>)"
  using check_link_ready_iff_missing_used [of "example_engine\<lparr>self_link_creds :=
       example_link_creds\<lparr>used_creds_keys := {''my_s3_key'', ''other''}\<rparr>\<rparr>"]
     check_link_ready_iff_missing_used [of "example_engine\<lparr>self_link_creds :=
       example_link_creds\<lparr>used_creds_keys := {''my_s3_key'', ''other''}, missing_keys := []\<rparr>\<rparr>"]
  by (simp add: example_link_creds_def)

subsection \<open>creds_encoder\<close>

lemma creds_encoder_exists_frame:
  "creds_encoder_exists ops s = (r, s') \<Longrightarrow> \<exists>c. s' = s\<lparr>self_meta_cache := c\<rparr>"
  unfolding creds_encoder_exists_def Let_def
  by (auto split: if_splits prod.splits sum.splits error.splits intro: exI[of _ "self_meta_cache s"])

lemma create_or_load_frame:
  "create_or_load ops key s = (r, s') \<Longrightarrow> \<exists>c. s' = s\<lparr>self_meta_cache := c\<rparr>"
  unfolding create_or_load_def Let_def
  by (auto split: prod.splits sum.splits error.splits bool.splits dest!: creds_encoder_exists_frame)


lemma creds_encoder_post:
  assumes "creds_encoder ops s = (Inr enc, s')"
  shows "self_creds_encoder s' = Some enc \<and>
         self_creds_encoder_commit_id s' = Some (self_commit_id s) \<and>
         self_commit_id s' = self_commit_id s \<and> self_key s' = self_key s \<and>
         self_link_creds s' = self_link_creds s \<and> effects s' = effects s \<and>
         tensor_meta_is_link s' = tensor_meta_is_link s \<and>
         tensor_meta_verify s' = tensor_meta_verify s"
  using assms unfolding creds_encoder_def Let_def
  by (auto split: if_splits option.splits prod.splits sum.splits dest!: create_or_load_frame)

lemma creds_encoder_exists_not_held:
  "not_held s \<Longrightarrow>
   creds_encoder_exists ops s =
     (case cache_getitem ops (self_meta_cache s)
             (get_creds_encoder_key ops (self_key s) (self_commit_id s)) of
        (Inr _, c) \<Rightarrow> (Inr True, s\<lparr>self_meta_cache := c\<rparr>)
      | (Inl KeyError, c) \<Rightarrow> (Inr False, s\<lparr>self_meta_cache := c\<rparr>)
      | (Inl e, c) \<Rightarrow> (Inl e, s\<lparr>self_meta_cache := c\<rparr>))"
  unfolding creds_encoder_exists_def Let_def not_held_def by auto

lemma creds_encoder_not_held:
  "not_held s \<Longrightarrow>
   creds_encoder ops s =
     (case create_or_load ops (get_creds_encoder_key ops (self_key s) (self_commit_id s)) s of
        (Inl e, s2) \<Rightarrow> (Inl e, s2)
      | (Inr enc, s2) \<Rightarrow>
          (case register_hub_object ops (self_meta_cache s2)
                  (get_creds_encoder_key ops (self_key s) (self_commit_id s)) enc of
             (Inl e, c) \<Rightarrow>
               (Inl e, s2\<lparr>self_creds_encoder := Some enc,
                          self_creds_encoder_commit_id := Some (self_commit_id s),
                          self_meta_cache := c\<rparr>)
           | (Inr _, c) \<Rightarrow>
               (Inr enc, s2\<lparr>self_creds_encoder := Some enc,
                            self_creds_encoder_commit_id := Some (self_commit_id s),
                            self_meta_cache := c\<rparr>)))"
  unfolding creds_encoder_def Let_def not_held_def
  by (auto split: option.splits prod.splits sum.splits)










text \<open>
  C8. When no encoder is held and the cache has none under the key (the lookup raises
  \<^verbatim>\<open>KeyError\<close>), an empty encoder is created; a \<^verbatim>\<open>ReadOnlyModeError\<close> of the write to
  the cache is passed over, and the new encoder is recorded, registered and returned.
  Every other error reaches the caller: another error of that write, an error of the
  lookup other than \<^verbatim>\<open>KeyError\<close>, any error of loading an existing encoder, and any
  error of registering the encoder.
\<close>

theorem creds_encoder_read_only_passed_over:
  "(not_held s
     \<and> cache_getitem ops (self_meta_cache s)
          (get_creds_encoder_key ops (self_key s) (self_commit_id s)) = (Inl KeyError, c1)
     \<and> cache_setitem ops c1 (get_creds_encoder_key ops (self_key s) (self_commit_id s))
          CredsEncoder = (Inl ReadOnlyModeError, c2)
     \<and> register_hub_object ops c2 (get_creds_encoder_key ops (self_key s) (self_commit_id s))
          CredsEncoder = (Inr (), c3)
     \<longrightarrow> creds_encoder ops s =
           (Inr CredsEncoder,
            s\<lparr>self_creds_encoder := Some CredsEncoder,
              self_creds_encoder_commit_id := Some (self_commit_id s),
              self_meta_cache := c3\<rparr>))
   \<and> (not_held s
     \<and> cache_getitem ops (self_meta_cache s)
          (get_creds_encoder_key ops (self_key s) (self_commit_id s)) = (Inl KeyError, c1)
     \<and> cache_setitem ops c1 (get_creds_encoder_key ops (self_key s) (self_commit_id s))
          CredsEncoder = (Inl e, c2)
     \<and> e \<noteq> ReadOnlyModeError
     \<longrightarrow> fst (creds_encoder ops s) = Inl e)
   \<and> (not_held s
     \<and> cache_getitem ops (self_meta_cache s)
          (get_creds_encoder_key ops (self_key s) (self_commit_id s)) = (Inl e, c1)
     \<and> e \<noteq> KeyError
     \<longrightarrow> fst (creds_encoder ops s) = Inl e)
   \<and> (not_held s
     \<and> cache_getitem ops (self_meta_cache s)
          (get_creds_encoder_key ops (self_key s) (self_commit_id s)) = (Inr (), c1)
     \<and> get_hub_object ops c1 (get_creds_encoder_key ops (self_key s) (self_commit_id s))
          = (Inl e, c2)
     \<longrightarrow> fst (creds_encoder ops s) = Inl e)
   \<and> (not_held s
     \<and> create_or_load ops (get_creds_encoder_key ops (self_key s) (self_commit_id s)) s
          = (Inr enc, s2)
     \<and> register_hub_object ops (self_meta_cache s2)
          (get_creds_encoder_key ops (self_key s) (self_commit_id s)) enc = (Inl e, c3)
     \<longrightarrow> fst (creds_encoder ops s) = Inl e)"
proof (intro conjI impI; elim conjE)
  assume "not_held s"
    "cache_getitem ops (self_meta_cache s)
       (get_creds_encoder_key ops (self_key s) (self_commit_id s)) = (Inl KeyError, c1)"
    "cache_setitem ops c1 (get_creds_encoder_key ops (self_key s) (self_commit_id s))
       CredsEncoder = (Inl ReadOnlyModeError, c2)"
    "register_hub_object ops c2 (get_creds_encoder_key ops (self_key s) (self_commit_id s))
       CredsEncoder = (Inr (), c3)"
  then show "creds_encoder ops s =
           (Inr CredsEncoder,
            s\<lparr>self_creds_encoder := Some CredsEncoder,
              self_creds_encoder_commit_id := Some (self_commit_id s),
              self_meta_cache := c3\<rparr>)"
    by (simp add: creds_encoder_not_held create_or_load_def creds_encoder_exists_not_held)
next
  assume "not_held s"
    "cache_getitem ops (self_meta_cache s)
       (get_creds_encoder_key ops (self_key s) (self_commit_id s)) = (Inl KeyError, c1)"
    "cache_setitem ops c1 (get_creds_encoder_key ops (self_key s) (self_commit_id s))
       CredsEncoder = (Inl e, c2)"
    "e \<noteq> ReadOnlyModeError"
  then show "fst (creds_encoder ops s) = Inl e"
    by (cases e) (simp_all add: creds_encoder_not_held create_or_load_def creds_encoder_exists_not_held)
next
  assume "not_held s"
    "cache_getitem ops (self_meta_cache s)
       (get_creds_encoder_key ops (self_key s) (self_commit_id s)) = (Inl e, c1)"
    "e \<noteq> KeyError"
  then show "fst (creds_encoder ops s) = Inl e"
    by (cases e) (simp_all add: creds_encoder_not_held create_or_load_def creds_encoder_exists_not_held)
next
  assume "not_held s"
    "cache_getitem ops (self_meta_cache s)
       (get_creds_encoder_key ops (self_key s) (self_commit_id s)) = (Inr (), c1)"
    "get_hub_object ops c1 (get_creds_encoder_key ops (self_key s) (self_commit_id s))
       = (Inl e, c2)"
  then show "fst (creds_encoder ops s) = Inl e"
    by (simp add: creds_encoder_not_held create_or_load_def creds_encoder_exists_not_held)
next
  assume "not_held s"
    "create_or_load ops (get_creds_encoder_key ops (self_key s) (self_commit_id s)) s
       = (Inr enc, s2)"
    "register_hub_object ops (self_meta_cache s2)
       (get_creds_encoder_key ops (self_key s) (self_commit_id s)) enc = (Inl e, c3)"
  then show "fst (creds_encoder ops s) = Inl e"
    by (simp add: creds_encoder_not_held)
qed

theorem creds_encoder_read_only_witness:
  "not_held (example_engine\<lparr>self_meta_cache := ([], True)\<rparr>)
   \<and> cache_setitem example_ops ([], True) ''versions/c1/videos/creds_index'' CredsEncoder
       = (Inl ReadOnlyModeError, ([], True))
   \<and> creds_encoder example_ops (example_engine\<lparr>self_meta_cache := ([], True)\<rparr>) =
       (Inr CredsEncoder,
        example_engine\<lparr>self_creds_encoder := Some CredsEncoder,
          self_creds_encoder_commit_id := Some ''c1'',
          self_meta_cache := ([(''versions/c1/videos/creds_index'', CredsEncoder)], True)\<rparr>)
   \<and> cache_setitem example_failing_ops ([], False) ''versions/c1/videos/creds_index''
         CredsEncoder
       = (Inl (Raised ''OSError''), ([], False))
   \<and> fst (creds_encoder example_failing_ops example_engine) = Inl (Raised ''OSError'')"
proof -
  let ?ro = "example_engine\<lparr>self_meta_cache := ([], True)\<rparr>"
  let ?key = "''versions/c1/videos/creds_index''"
  have k: "get_creds_encoder_key example_ops (self_key ?ro) (self_commit_id ?ro) = ?key"
     "get_creds_encoder_key example_failing_ops (self_key example_engine)
        (self_commit_id example_engine) = ?key"
    by (simp_all add: example_defs example_failing_ops_def)
  have miss: "not_held ?ro" "not_held example_engine"
    by (simp_all add: not_held_def example_engine_def)
  have g: "cache_getitem example_ops (self_meta_cache ?ro) ?key = (Inl KeyError, ([], True))"
    and w: "cache_setitem example_ops ([], True) ?key CredsEncoder
              = (Inl ReadOnlyModeError, ([], True))"
    and r: "register_hub_object example_ops ([], True) ?key CredsEncoder
              = (Inr (), ([(?key, CredsEncoder)], True))"
    by (simp_all add: example_defs)
  have g': "cache_getitem example_failing_ops (self_meta_cache example_engine) ?key
              = (Inl KeyError, ([], False))"
    and w': "cache_setitem example_failing_ops ([], False) ?key CredsEncoder
              = (Inl (Raised ''OSError''), ([], False))"
    by (simp_all add: example_defs example_failing_ops_def)
  from creds_encoder_read_only_passed_over
         [where ops = example_ops and s = ?ro and ?c1.0 = "([], True)" and ?c2.0 = "([], True)"
            and ?c3.0 = "([(?key, CredsEncoder)], True)"]
       miss g w r
  have 1: "creds_encoder example_ops ?ro =
       (Inr CredsEncoder,
        example_engine\<lparr>self_creds_encoder := Some CredsEncoder,
          self_creds_encoder_commit_id := Some ''c1'',
          self_meta_cache := ([(?key, CredsEncoder)], True)\<rparr>)"
    unfolding k by (simp add: example_engine_def)
  from creds_encoder_read_only_passed_over
         [where ops = example_failing_ops and s = example_engine and ?c1.0 = "([], False)"
            and ?c2.0 = "([], False)" and e = "Raised ''OSError''"]
       miss g' w'
  have 2: "fst (creds_encoder example_failing_ops example_engine) = Inl (Raised ''OSError'')"
    unfolding k by simp
  from 1 2 miss w w' show ?thesis by simp
qed

subsection \<open>get_video_url, get_basic_sample, get_video_sample\<close>

lemma startswith_iff: "startswith p pre \<longleftrightarrow> (\<exists>rest. p = pre @ rest)"
proof
  assume "startswith p pre"
  then have "p = pre @ drop (length pre) p"
    unfolding startswith_def by (metis append_take_drop_id)
  then show "\<exists>rest. p = pre @ rest" ..
next
  assume "\<exists>rest. p = pre @ rest"
  then show "startswith p pre"
    unfolding startswith_def by auto
qed

lemma creds_encoder_link_creds:
  "creds_encoder ops s = (Inr enc, s1) \<Longrightarrow> self_link_creds s1 = self_link_creds s"
  by (simp add: creds_encoder_post)

lemma get_video_url_resolved:
  assumes "creds_encoder ops s = (Inr enc, s1)" and "get_path ops i = Inr p"
    and "get_encoded_creds_key enc i = Inr n"
    and "get_creds_key ops (self_link_creds s) n = Inr k"
  shows "get_video_url ops s i =
      (if startswith p ''gcs://'' \<or> startswith p ''gcp://'' \<or> startswith p ''s3://''
       then (case get_storage_provider ops (self_link_creds s) k
                     (if startswith p ''s3://'' then ''s3'' else ''gcs'') of
                Inl e \<Rightarrow> (Inl e, s1)
              | Inr storage \<Rightarrow> (get_presigned_url ops storage p True, s1))
       else (Inr p, s1))"
  unfolding get_video_url_def Let_def
  by (simp add: assms creds_encoder_link_creds [OF assms(1)])

text \<open>
  C5. For a sample index at which the encoder, the stored path \<open>p\<close>, the encoded id and
  the credential key \<open>k\<close> resolve: when \<open>p\<close> begins with one of the object-storage
  schemes \<^verbatim>\<open>gcs://\<close>, \<^verbatim>\<open>gcp://\<close>, \<^verbatim>\<open>s3://\<close>, the outcome of \<^verbatim>\<open>get_video_url\<close> is what
  \<^verbatim>\<open>get_presigned_url(p, full=True)\<close> gives on the storage client that the registry
  resolves for \<open>k\<close> (of provider type \<^verbatim>\<open>s3\<close> for \<^verbatim>\<open>s3://\<close>, else \<^verbatim>\<open>gcs\<close>);
  for every other path the stored path is returned unchanged and no client is asked.
\<close>

theorem get_video_url_presigned_iff_object_storage:
  "creds_encoder ops s = (Inr enc, s1) \<and> get_path ops i = Inr p
   \<and> get_encoded_creds_key enc i = Inr n \<and> get_creds_key ops (self_link_creds s) n = Inr k
   \<longrightarrow>
     ((\<exists>rest. p = ''gcs://'' @ rest \<or> p = ''gcp://'' @ rest \<or> p = ''s3://'' @ rest)
        \<longrightarrow> get_video_url ops s i =
             (case get_storage_provider ops (self_link_creds s) k
                     (if \<exists>rest. p = ''s3://'' @ rest then ''s3'' else ''gcs'') of
                Inl e \<Rightarrow> Inl e
              | Inr storage \<Rightarrow> get_presigned_url ops storage p True,
              s1))
     \<and> (\<not> (\<exists>rest. p = ''gcs://'' @ rest \<or> p = ''gcp://'' @ rest \<or> p = ''s3://'' @ rest)
        \<longrightarrow> get_video_url ops s i = (Inr p, s1))"
proof (intro impI, elim conjE)
  assume a: "creds_encoder ops s = (Inr enc, s1)" and b: "get_path ops i = Inr p"
    and c: "get_encoded_creds_key enc i = Inr n"
    and d: "get_creds_key ops (self_link_creds s) n = Inr k"
  have scheme: "(startswith p ''gcs://'' \<or> startswith p ''gcp://'' \<or> startswith p ''s3://'')
       = (\<exists>rest. p = ''gcs://'' @ rest \<or> p = ''gcp://'' @ rest \<or> p = ''s3://'' @ rest)"
    unfolding startswith_iff by blast
  show "((\<exists>rest. p = ''gcs://'' @ rest \<or> p = ''gcp://'' @ rest \<or> p = ''s3://'' @ rest)
        \<longrightarrow> get_video_url ops s i =
             (case get_storage_provider ops (self_link_creds s) k
                     (if \<exists>rest. p = ''s3://'' @ rest then ''s3'' else ''gcs'') of
                Inl e \<Rightarrow> Inl e
              | Inr storage \<Rightarrow> get_presigned_url ops storage p True,
              s1))
     \<and> (\<not> (\<exists>rest. p = ''gcs://'' @ rest \<or> p = ''gcp://'' @ rest \<or> p = ''s3://'' @ rest)
        \<longrightarrow> get_video_url ops s i = (Inr p, s1))"
    unfolding get_video_url_resolved [OF a b c d] scheme [symmetric]
      startswith_iff [of p "''s3://''", symmetric]
    by (simp split: sum.splits)
qed

lemma example_holding_encoder:
  "creds_encoder example_ops example_engine_populated = (Inr [(1, 4)], example_engine_populated)"
  by (simp add: creds_encoder_def Let_def example_engine_populated_def
        example_engine_holding_def example_engine_def)

lemma example_lookups:
  "get_path example_ops 0 = Inr ''s3://bucket/clip.mp4''"
  "get_path example_ops 1 = Inr []"
  "get_path example_ops 2 = Inr ''videos/clip.mp4''"
  "get_encoded_creds_key [(1, 4)] 0 = Inr 1"
  "get_encoded_creds_key [(1, 4)] 2 = Inr 1"
  "get_creds_key example_ops (self_link_creds example_engine_populated) 1 = Inr (Some ''my_s3_key'')"
  by (simp_all add: get_path_def example_ops_def example_paths_def get_encoded_creds_key_def
        example_get_creds_key_def example_engine_populated_def example_engine_holding_def
        example_engine_def example_link_creds_def)

theorem get_video_url_witness:
  "get_video_url example_ops example_engine_populated 0
     = (Inr ''https://s3:my_s3_key/s3://bucket/clip.mp4'', example_engine_populated)
   \<and> get_video_url example_ops example_engine_populated 2
     = (Inr ''videos/clip.mp4'', example_engine_populated)"
proof -
  have sp: "get_storage_provider example_ops (self_link_creds example_engine_populated)
              (Some ''my_s3_key'') ''s3'' = Inr ''s3:my_s3_key''"
    by (simp add: example_ops_def example_get_storage_provider_def example_engine_populated_def
          example_engine_holding_def example_engine_def example_link_creds_def)
  have pu: "get_presigned_url example_ops ''s3:my_s3_key'' ''s3://bucket/clip.mp4'' True
              = Inr ''https://s3:my_s3_key/s3://bucket/clip.mp4''"
    by (simp add: example_ops_def)
  have s3: "\<exists>rest. ''s3://bucket/clip.mp4'' = ''s3://'' @ rest" by simp
  have no: "\<not> (\<exists>rest. ''videos/clip.mp4'' = ''gcs://'' @ rest
               \<or> ''videos/clip.mp4'' = ''gcp://'' @ rest \<or> ''videos/clip.mp4'' = ''s3://'' @ rest)"
    by simp
  from get_video_url_presigned_iff_object_storage
         [where ops = example_ops and s = example_engine_populated and i = 0
            and enc = "[(1, 4)]" and ?s1.0 = example_engine_populated
            and p = "''s3://bucket/clip.mp4''" and n = 1 and k = "Some ''my_s3_key''"]
       example_holding_encoder example_lookups s3
  have 1: "get_video_url example_ops example_engine_populated 0
     = (Inr ''https://s3:my_s3_key/s3://bucket/clip.mp4'', example_engine_populated)"
    by (simp add: sp pu)
  from get_video_url_presigned_iff_object_storage
         [where ops = example_ops and s = example_engine_populated and i = 2
            and enc = "[(1, 4)]" and ?s1.0 = example_engine_populated
            and p = "''videos/clip.mp4''" and n = 1 and k = "Some ''my_s3_key''"]
       example_holding_encoder example_lookups no
  have 2: "get_video_url example_ops example_engine_populated 2
     = (Inr ''videos/clip.mp4'', example_engine_populated)"
    by simp
  from 1 2 show ?thesis by simp
qed


lemma get_hub_read_sample_empty:
  "creds_encoder ops s = (Inr enc, s1) \<Longrightarrow> get_path ops i = Inr [] \<Longrightarrow>
   get_hub_read_sample ops s i = (Inr None, s1)"
  by (simp add: get_hub_read_sample_def)

lemma get_hub_read_sample_read:
  "creds_encoder ops s = (Inr enc, s1) \<Longrightarrow> get_path ops i = Inr p \<Longrightarrow> p \<noteq> [] \<Longrightarrow>
   get_encoded_creds_key enc i = Inr n \<Longrightarrow> get_creds_key ops (self_link_creds s) n = Inr k \<Longrightarrow>
   read_linked_sample ops p k (self_link_creds s) False = Inr smp \<Longrightarrow>
   get_hub_read_sample ops s i = (Inr (Some smp), s1)"
  by (simp add: get_hub_read_sample_def creds_encoder_link_creds)

text \<open>
  C6. For a sample index whose stored path is empty, \<^verbatim>\<open>get_basic_sample\<close> returns the
  array of shape \<open>(0,)\<close>, one-dimensional and without elements, whatever the index
  argument; it does not raise. For a non-empty path it reads the linked sample with the
  credential key of that index and returns its array indexed by the entries of the index
  after the first.
\<close>

theorem get_basic_sample_empty_or_resolved:
  "(creds_encoder ops s = (Inr enc, s1) \<and> get_path ops i = Inr []
      \<longrightarrow> get_basic_sample ops s i index fetch_chunks = (Inr (NDArray [0] []), s1))
   \<and> (creds_encoder ops s = (Inr enc, s1) \<and> get_path ops i = Inr p \<and> p \<noteq> []
       \<and> get_encoded_creds_key enc i = Inr n
       \<and> get_creds_key ops (self_link_creds s) n = Inr k
       \<and> read_linked_sample ops p k (self_link_creds s) False = Inr smp
       \<and> array smp = Inr arr
      \<longrightarrow> get_basic_sample ops s i (Index entries) fetch_chunks
            = (ndarray_getitem ops arr (drop 1 entries), s1))"
  by (simp add: get_basic_sample_def get_hub_read_sample_empty get_hub_read_sample_read
        np_ones_def)

theorem get_basic_sample_witness:
  "get_path example_ops 1 = Inr []
   \<and> get_basic_sample example_ops example_engine_populated 1 (Index [IntValue 1, IntValue 1]) False
       = (Inr (NDArray [0] []), example_engine_populated)
   \<and> get_path example_ops 2 = Inr ''videos/clip.mp4''
   \<and> read_linked_sample example_ops ''videos/clip.mp4'' (Some ''my_s3_key'')
         (self_link_creds example_engine_populated) False
       = Inr (Sample (Inr (NDArray [2, 3] [1, 2, 3, 4, 5, 6])))
   \<and> get_basic_sample example_ops example_engine_populated 2 (Index [IntValue 2, IntValue 1]) False
       = (Inr (NDArray [3] [4, 5, 6]), example_engine_populated)"
proof -
  have rd: "read_linked_sample example_ops ''videos/clip.mp4'' (Some ''my_s3_key'')
         (self_link_creds example_engine_populated) False
       = Inr (Sample (Inr (NDArray [2, 3] [1, 2, 3, 4, 5, 6])))"
    by (simp add: example_ops_def)
  have gi: "ndarray_getitem example_ops (NDArray [2, 3] [1, 2, 3, 4, 5, 6]) [IntValue 1]
              = Inr (NDArray [3] [4, 5, 6])"
    by (simp add: example_ops_def example_ndarray_getitem_def)
  from get_basic_sample_empty_or_resolved
         [where ops = example_ops and s = example_engine_populated and i = 1
            and enc = "[(1, 4)]" and ?s1.0 = example_engine_populated
            and index = "Index [IntValue 1, IntValue 1]" and fetch_chunks = False]
       example_holding_encoder example_lookups
  have 1: "get_basic_sample example_ops example_engine_populated 1
             (Index [IntValue 1, IntValue 1]) False
           = (Inr (NDArray [0] []), example_engine_populated)"
    by simp
  from get_basic_sample_empty_or_resolved
         [where ops = example_ops and s = example_engine_populated and i = 2
            and enc = "[(1, 4)]" and ?s1.0 = example_engine_populated
            and p = "''videos/clip.mp4''" and n = 1 and k = "Some ''my_s3_key''"
            and smp = "Sample (Inr (NDArray [2, 3] [1, 2, 3, 4, 5, 6]))"
            and arr = "NDArray [2, 3] [1, 2, 3, 4, 5, 6]"
            and entries = "[IntValue 2, IntValue 1]" and fetch_chunks = False]
       example_holding_encoder example_lookups rd
  have 2: "get_basic_sample example_ops example_engine_populated 2
             (Index [IntValue 2, IntValue 1]) False
           = (Inr (NDArray [3] [4, 5, 6]), example_engine_populated)"
    by (simp add: gi)
  from 1 2 rd example_lookups show ?thesis by simp
qed

text \<open>
  Whatever the index, an array that \<^verbatim>\<open>get_video_sample\<close> returns is the array the
  decoder returned for the frame range.
\<close>

lemma get_video_sample_returns_decoded:
  assumes "get_video_sample ops s i index = (Inr a, s')"
  shows "\<exists>values url nframes rest start stop step reverse.
           index = Index values
           \<and> get_video_url ops s i = (Inr url, s')
           \<and> read_video_shape ops url = Inr (nframes # rest)
           \<and> normalize_index ops (if 1 < length values then Some (values ! 1) else None) nframes
               = Inr (start, stop, step, reverse)
           \<and> decompress_video ops url start stop step reverse = Inr a"
  using assms unfolding get_video_sample_def Let_def
  by (auto split: prod.splits sum.splits index_arg.splits list.splits if_splits)

text \<open>
  C2. The index \<open>[2, 5]\<close> selects the single frame 5 of sample 2. The decoder returns
  the range of one frame, of shape \<open>(1, 1, 1, 1)\<close>, and \<^verbatim>\<open>get_video_sample\<close>
  returns that array with its frame axis: \<^verbatim>\<open>squeeze\<close> is false for an \<^verbatim>\<open>Index\<close>, and
  the array \<^verbatim>\<open>squeeze(0)\<close> would give, of shape \<open>(1, 1, 1)\<close>, is not what is returned.
  An index that is an \<^verbatim>\<open>int\<close>, the one case in which \<^verbatim>\<open>squeeze\<close> is true, raises
  \<^verbatim>\<open>AttributeError\<close> at \<^verbatim>\<open>index.values\<close>.
\<close>

theorem get_video_sample_frame_axis_not_collapsed:
  "get_video_sample example_ops example_engine_populated 2 (Index [IntValue 2, IntValue 5])
     = (Inr (NDArray [1, 1, 1, 1] [128]), example_engine_populated)
   \<and> decompress_video example_ops ''videos/clip.mp4'' 5 6 1 False
     = Inr (NDArray [1, 1, 1, 1] [128])
   \<and> squeeze (NDArray [1, 1, 1, 1] [128]) 0 = Inr (NDArray [1, 1, 1] [128])
   \<and> get_video_sample example_ops example_engine_populated 2 (IntIndex 5)
     = (Inl AttributeError, example_engine_populated)"
proof -
  have url: "get_video_url example_ops example_engine_populated 2
               = (Inr ''videos/clip.mp4'', example_engine_populated)"
    using get_video_url_resolved [OF example_holding_encoder example_lookups(3)
            example_lookups(5) example_lookups(6)]
    by (simp add: startswith_def)
  have dec: "decompress_video example_ops ''videos/clip.mp4'' 5 6 1 False
               = Inr (NDArray [1, 1, 1, 1] [128])"
    by (simp add: example_ops_def example_decompress_video_def)
  have shp: "read_video_shape example_ops ''videos/clip.mp4'' = Inr [10, 1, 1, 1]"
    by (simp add: example_ops_def)
  have nrm: "normalize_index example_ops (Some (IntValue 5)) 10 = Inr (5, 6, 1, False)"
    by (simp add: example_ops_def example_normalize_index_def)
  have 1: "get_video_sample example_ops example_engine_populated 2
             (Index [IntValue 2, IntValue 5])
           = (Inr (NDArray [1, 1, 1, 1] [128]), example_engine_populated)"
    by (simp add: get_video_sample_def url shp nrm dec)
  have 2: "squeeze (NDArray [1, 1, 1, 1] [128]) 0 = Inr (NDArray [1, 1, 1] [128])"
    by (simp add: squeeze_def)
  have 3: "get_video_sample example_ops example_engine_populated 2 (IntIndex 5)
             = (Inl AttributeError, example_engine_populated)"
    by (simp add: get_video_sample_def url shp)
  from 1 dec 2 3 show ?thesis by simp
qed

subsection \<open>is_data_cachable\<close>










subsection \<open>check_each_sample\<close>

declare check_each_sample_loop.simps [simp del]

lemma resolve_sample_assigned:
  "resolve_sample x = Inr (smp, assigned) \<Longrightarrow>
   (case assigned of None \<Rightarrow> x | Some y \<Rightarrow> y) = overwritten x"
  unfolding resolve_sample_def overwritten_def
  by (auto split: sample.splits sum.splits if_splits)

lemma resolve_sample_error_keeps:
  "resolve_sample x = Inl e \<Longrightarrow> overwritten x = x \<or> (\<exists>l. x = Tensor False (Inr l))"
  unfolding resolve_sample_def overwritten_def
  by (auto split: sample.splits sum.splits if_splits)

lemma loop_done:
  "\<not> i < length samples \<Longrightarrow> check_each_sample_loop ops s i samples acc = (Inr acc, samples)"
  by (subst check_each_sample_loop.simps) simp

lemma loop_step_ok:
  assumes "i < length samples" and "check_one ops s (samples ! i) = Inr v"
  shows "check_each_sample_loop ops s i samples acc =
         check_each_sample_loop ops s (Suc i) (samples[i := overwritten (samples ! i)]) (acc @ [v])"
proof -
  from assms(2) obtain smp assigned where r: "resolve_sample (samples ! i) = Inr (smp, assigned)"
    unfolding check_one_def by (auto split: sum.splits)
  have upd: "(case assigned of None \<Rightarrow> samples | Some x \<Rightarrow> samples[i := x])
             = samples[i := overwritten (samples ! i)]"
    using resolve_sample_assigned [OF r] by (cases assigned) auto
  show ?thesis
    using assms r upd
    by (subst check_each_sample_loop.simps)
       (auto simp: check_one_def Let_def split: sum.splits prod.splits)
qed

lemma loop_step_error:
  assumes "i < length samples" and "check_one ops s (samples ! i) = Inl e"
  shows "check_each_sample_loop ops s i samples acc =
         (Inl e, if (\<exists>e'. resolve_sample (samples ! i) = Inl e') then samples
                 else samples[i := overwritten (samples ! i)])"
proof (cases "resolve_sample (samples ! i)")
  case (Inl e')
  with assms show ?thesis
    by (subst check_each_sample_loop.simps) (auto simp: check_one_def)
next
  case (Inr r)
  obtain smp assigned where r: "r = (smp, assigned)" by (cases r)
  have upd: "(case assigned of None \<Rightarrow> samples | Some x \<Rightarrow> samples[i := x])
             = samples[i := overwritten (samples ! i)]"
    using resolve_sample_assigned [of "samples ! i" smp assigned] Inr r
    by (cases assigned) auto
  show ?thesis
    using assms Inr r upd
    by (subst check_each_sample_loop.simps)
       (auto simp: check_one_def Let_def split: sum.splits prod.splits)
qed

lemma loop_success:
  "check_each_sample_loop ops s i samples acc = (Inr vs, samples') \<Longrightarrow> i \<le> length samples \<Longrightarrow>
   map Inr vs = map Inr acc @ map (check_one ops s) (drop i samples)
   \<and> samples' = take i samples @ map overwritten (drop i samples)"
proof (induction "length samples - i" arbitrary: i samples acc)
  case 0
  then have "i = length samples" by simp
  with "0.prems" show ?case by (simp add: loop_done)
next
  case (Suc n)
  then have lt: "i < length samples" by simp
  show ?case
  proof (cases "check_one ops s (samples ! i)")
    case (Inl e)
    with Suc.prems lt show ?thesis by (simp add: loop_step_error)
  next
    case (Inr v)
    let ?xs = "samples[i := overwritten (samples ! i)]"
    from Suc.prems(1) have run: "check_each_sample_loop ops s (Suc i) ?xs (acc @ [v]) = (Inr vs, samples')"
      by (simp add: loop_step_ok [OF lt Inr])
    have "n = length ?xs - Suc i" using Suc.hyps(2) by simp
    from Suc.hyps(1) [OF this run] lt
    have ih: "map Inr vs = map Inr (acc @ [v]) @ map (check_one ops s) (drop (Suc i) ?xs)"
      and ih2: "samples' = take (Suc i) ?xs @ map overwritten (drop (Suc i) ?xs)"
      by simp_all
    have d: "drop i samples = samples ! i # drop (Suc i) samples"
      using lt by (simp add: Cons_nth_drop_Suc)
    have t: "take (Suc i) ?xs = take i samples @ [overwritten (samples ! i)]"
      using lt by (simp add: take_Suc_conv_app_nth)
    show ?thesis
      using ih ih2 lt by (simp add: d t Inr)
  qed
qed


lemma loop_frame:
  "i \<le> length samples \<Longrightarrow>
   length (snd (check_each_sample_loop ops s i samples acc)) = length samples
   \<and> (\<forall>j < length samples.
        snd (check_each_sample_loop ops s i samples acc) ! j = samples ! j
        \<or> snd (check_each_sample_loop ops s i samples acc) ! j = overwritten (samples ! j))"
proof (induction "length samples - i" arbitrary: i samples acc)
  case 0
  then show ?case by (simp add: loop_done)
next
  case (Suc n)
  then have lt: "i < length samples" by simp
  show ?case
  proof (cases "check_one ops s (samples ! i)")
    case (Inl e)
    with lt show ?thesis by (auto simp: loop_step_error nth_list_update)
  next
    case (Inr v)
    let ?xs = "samples[i := overwritten (samples ! i)]"
    have "n = length ?xs - Suc i" using Suc.hyps(2) by simp
    from Suc.hyps(1) [OF this, where acc = "acc @ [v]"] lt
    have ih: "length (snd (check_each_sample_loop ops s (Suc i) ?xs (acc @ [v]))) = length samples"
      "\<forall>j < length samples.
        snd (check_each_sample_loop ops s (Suc i) ?xs (acc @ [v])) ! j = ?xs ! j
        \<or> snd (check_each_sample_loop ops s (Suc i) ?xs (acc @ [v])) ! j = overwritten (?xs ! j)"
      by simp_all
    have oo: "overwritten (overwritten (samples ! i)) = overwritten (samples ! i)"
      unfolding overwritten_def by (auto split: sample.splits sum.splits)
    show ?thesis
      unfolding loop_step_ok [OF lt Inr]
    proof (intro conjI allI impI)
      show "length (snd (check_each_sample_loop ops s (Suc i) ?xs (acc @ [v]))) = length samples"
        using ih(1) .
    next
      fix j
      assume j: "j < length samples"
      with ih(2)
      have "snd (check_each_sample_loop ops s (Suc i) ?xs (acc @ [v])) ! j = ?xs ! j
            \<or> snd (check_each_sample_loop ops s (Suc i) ?xs (acc @ [v])) ! j
                = overwritten (?xs ! j)"
        by blast
      then show "snd (check_each_sample_loop ops s (Suc i) ?xs (acc @ [v])) ! j = samples ! j
            \<or> snd (check_each_sample_loop ops s (Suc i) ?xs (acc @ [v])) ! j
                = overwritten (samples ! j)"
        using lt j oo by (cases "j = i") (auto simp: nth_list_update)
    qed
  qed
qed








lemma check_each_sample_success:
  assumes "fst (check_each_sample ops s samples) = Inr vs"
  shows "map Inr vs = map (check_one ops s) samples"
    and "snd (check_each_sample ops s samples) = map overwritten samples"
proof -
  obtain samples' where "check_each_sample_loop ops s 0 samples [] = (Inr vs, samples')"
    using assms unfolding check_each_sample_def
    by (cases "check_each_sample_loop ops s 0 samples []") simp
  from loop_success [OF this] this
  show "map Inr vs = map (check_one ops s) samples"
    and "snd (check_each_sample ops s samples) = map overwritten samples"
    by (simp_all add: check_each_sample_def)
qed


text \<open>
  C10. \<^verbatim>\<open>check_each_sample\<close> writes into the list it is given. The list keeps its
  length, and, also when the call raises, every element is either left as it was or is
  a link tensor's sample replaced by the \<^verbatim>\<open>LinkedSample\<close> it resolves to. When the call
  returns, every element that is a sample of a link tensor has been replaced by its
  \<^verbatim>\<open>LinkedSample\<close>, and every other element is unchanged.
\<close>

theorem check_each_sample_overwrites_in_place:
  "length (snd (check_each_sample ops s samples)) = length samples
   \<and> (\<forall>i < length samples.
        snd (check_each_sample ops s samples) ! i = samples ! i
        \<or> (\<exists>l. samples ! i = Tensor True (Inr l)
               \<and> snd (check_each_sample ops s samples) ! i = LinkedSample l))
   \<and> (fst (check_each_sample ops s samples) = Inr vs \<longrightarrow>
        (\<forall>i < length samples.
           (\<forall>l. samples ! i = Tensor True (Inr l) \<longrightarrow>
                snd (check_each_sample ops s samples) ! i = LinkedSample l)
           \<and> ((\<forall>l. samples ! i \<noteq> Tensor True (Inr l)) \<longrightarrow>
                snd (check_each_sample ops s samples) ! i = samples ! i)))"
proof (intro conjI allI impI)
  note f = loop_frame [of 0 samples ops s "[]", folded check_each_sample_def, simplified]
  show "length (snd (check_each_sample ops s samples)) = length samples"
    using f by simp
  fix i assume i: "i < length samples"
  have ov: "overwritten y = y \<or> (\<exists>l. y = Tensor True (Inr l) \<and> overwritten y = LinkedSample l)"
    for y
    unfolding overwritten_def by (auto split: sample.splits sum.splits)
  from f i have "snd (check_each_sample ops s samples) ! i = samples ! i
     \<or> snd (check_each_sample ops s samples) ! i = overwritten (samples ! i)"
    by blast
  with ov [of "samples ! i"]
  show "snd (check_each_sample ops s samples) ! i = samples ! i
        \<or> (\<exists>l. samples ! i = Tensor True (Inr l)
               \<and> snd (check_each_sample ops s samples) ! i = LinkedSample l)"
    by auto
next
  fix i l
  assume ok: "fst (check_each_sample ops s samples) = Inr vs" and i: "i < length samples"
    and t: "samples ! i = Tensor True (Inr l)"
  from check_each_sample_success(2) [OF ok] i
  have "snd (check_each_sample ops s samples) ! i = overwritten (samples ! i)" by simp
  with t show "snd (check_each_sample ops s samples) ! i = LinkedSample l"
    by (simp add: overwritten_def)
next
  fix i
  assume ok: "fst (check_each_sample ops s samples) = Inr vs" and i: "i < length samples"
    and t: "\<forall>l. samples ! i \<noteq> Tensor True (Inr l)"
  from check_each_sample_success(2) [OF ok] i
  have "snd (check_each_sample ops s samples) ! i = overwritten (samples ! i)" by simp
  with t show "snd (check_each_sample ops s samples) ! i = samples ! i"
    unfolding overwritten_def by (auto split: sample.splits sum.splits if_splits)
qed


lemma example_check_each_sample:
  "check_each_sample example_ops example_engine example_samples =
     (Inr [Unread None,
           Read (Sample (Inr (NDArray [2, 3] [1, 2, 3, 4, 5, 6]))),
           Unread (Some \<lparr>path = [], creds_key = None\<rparr>)],
      [PyNone,
       LinkedSample \<lparr>path = ''s3://bucket/a.png'', creds_key = Some ''my_s3_key''\<rparr>,
       LinkedSample \<lparr>path = [], creds_key = None\<rparr>])"
  by (simp add: check_each_sample_def example_samples_def check_each_sample_loop.simps
        resolve_sample_def verified_sample_of_def example_ops_def example_engine_def
        example_get_path_creds_key_def example_get_encoding_def example_link_creds_def)


theorem check_each_sample_in_place_witness:
  "fst (check_each_sample example_ops example_engine example_samples) =
     Inr [Unread None,
          Read (Sample (Inr (NDArray [2, 3] [1, 2, 3, 4, 5, 6]))),
          Unread (Some \<lparr>path = [], creds_key = None\<rparr>)]
   \<and> example_samples ! 1 =
       Tensor True (Inr \<lparr>path = ''s3://bucket/a.png'', creds_key = Some ''my_s3_key''\<rparr>)
   \<and> snd (check_each_sample example_ops example_engine example_samples) ! 1 =
       LinkedSample \<lparr>path = ''s3://bucket/a.png'', creds_key = Some ''my_s3_key''\<rparr>
   \<and> snd (check_each_sample example_ops example_engine example_samples) ! 0 = example_samples ! 0
   \<and> snd (check_each_sample example_ops example_engine example_samples) ! 2 = example_samples ! 2
   \<and> length (snd (check_each_sample example_ops example_engine example_samples)) = 3"
proof -
  let ?vs = "[Unread None, Read (Sample (Inr (NDArray [2, 3] [1, 2, 3, 4, 5, 6]))),
              Unread (Some \<lparr>path = [], creds_key = None\<rparr>)]"
  let ?l = "\<lparr>path = ''s3://bucket/a.png'', creds_key = Some ''my_s3_key''\<rparr>"
  have ok: "fst (check_each_sample example_ops example_engine example_samples) = Inr ?vs"
    by (simp add: example_check_each_sample)
  have len: "length example_samples = 3" and e1: "example_samples ! 1 = Tensor True (Inr ?l)"
    and e0: "\<forall>l. example_samples ! 0 \<noteq> Tensor True (Inr l)"
    and e2: "\<forall>l. example_samples ! 2 \<noteq> Tensor True (Inr l)"
    by (simp_all add: example_samples_def)
  note T = check_each_sample_overwrites_in_place
             [where ops = example_ops and s = example_engine and samples = example_samples
                and vs = ?vs]
  from T ok len
  have a: "length (snd (check_each_sample example_ops example_engine example_samples)) = 3"
    and b: "\<forall>i < 3.
           (\<forall>l. example_samples ! i = Tensor True (Inr l) \<longrightarrow>
                snd (check_each_sample example_ops example_engine example_samples) ! i
                  = LinkedSample l)
           \<and> ((\<forall>l. example_samples ! i \<noteq> Tensor True (Inr l)) \<longrightarrow>
                snd (check_each_sample example_ops example_engine example_samples) ! i
                  = example_samples ! i)"
    by simp_all
  from b e1 have 1: "snd (check_each_sample example_ops example_engine example_samples) ! 1
        = LinkedSample ?l"
    by (metis one_less_numeral_iff semiring_norm(77))
  from b e0 have 0: "snd (check_each_sample example_ops example_engine example_samples) ! 0
        = example_samples ! 0"
    by (metis zero_less_numeral)
  from b e2 have 2: "snd (check_each_sample example_ops example_engine example_samples) ! 2
        = example_samples ! 2"
    by (metis lessI numeral_3_eq_3 numeral_2_eq_2)
  from ok e1 1 0 2 a show ?thesis by blast
qed

subsection \<open>register_new_creds\<close>



















end
